theory Spec2Isabelle
  imports Complex_Main "HOL-Library.Sublist"
begin

section \<open>Python values shared by the scripts\<close>

text \<open>
  A Python \<open>str\<close> is a \<open>string\<close>: the list of the bytes of its UTF-8 encoding. Literals
  of the source outside ASCII (the emoji of the GUI messages) are written as their bytes.
  \<open>sub in s\<close> on strings is the contiguous-sublist test.
\<close>

definition py_in :: "string \<Rightarrow> string \<Rightarrow> bool" where
  "py_in sub s = sublist sub s"

text \<open>
  What a call of a library function gives back: its value; an exception derived from
  \<open>Exception\<close>, with the text \<open>str(e)\<close> that the \<open>except Exception as e\<close> handlers
  format; an exception outside \<open>Exception\<close> (\<open>KeyboardInterrupt\<close>, \<open>SystemExit\<close>, a bare
  \<open>BaseException\<close>), which only a bare \<open>except:\<close> catches; or nothing, when the call never
  returns.
\<close>

datatype 'a io = Returns 'a | Raises string | Escapes string | Hangs

text \<open>\<open>subprocess.CompletedProcess\<close>, as \<open>capture_output=True, text=True\<close> fills it.\<close>

record completed =
  returncode :: int
  stdout :: string
  stderr :: string

text \<open>
  The outcome of one \<open>subprocess.run(argv, timeout=t)\<close>: the process ran to its end, the
  timeout expired (\<open>subprocess.TimeoutExpired\<close>), or another exception was raised.
\<close>

datatype outcome = Completed completed | TimeoutExpired string | OtherError string

text \<open>
  The external engine is not part of the repository. It is a parameter of every test:
  \<open>sp i argv t\<close> is the outcome of the \<open>i\<close>-th call of \<open>subprocess.run\<close> of a test, made
  with the argument vector \<open>argv\<close> and the timeout \<open>t\<close> (in seconds).
\<close>

type_synonym runner = "nat \<Rightarrow> string list \<Rightarrow> nat \<Rightarrow> outcome"

section \<open>The QA suite: \<open>axiom_qa_test_suite.py\<close>\<close>

text \<open>\<open>self.results\<close>: one dictionary of test name to verdict per section.\<close>

record qa_results =
  architecture_tests :: "string \<rightharpoonup> string"
  performance_tests :: "string \<rightharpoonup> string"
  functional_tests :: "string \<rightharpoonup> string"
  security_tests :: "string \<rightharpoonup> string"
  overall_status :: string

definition init_results :: qa_results where
  "init_results = \<lparr> architecture_tests = Map.empty, performance_tests = Map.empty,
     functional_tests = Map.empty, security_tests = Map.empty,
     overall_status = ''UNKNOWN'' \<rparr>"

subsection \<open>\<open>test_daemon_handshake\<close>\<close>

text \<open>
  The literal of line 127 is \<open>"2+2\\n"\<close>: in Python source the two characters \<open>\\\<close> denote
  one backslash, so the string is \<open>2\<close>, \<open>+\<close>, \<open>2\<close>, backslash, \<open>n\<close>.
\<close>

definition test_command :: string where
  "test_command = ''2+2'' @ [CHR 0x5C, CHR ''n'']"

definition sentinel :: string where
  "sentinel = ''__END_OF_RESPONSE__''"

text \<open>
  One pass of the reading loop as the environment answers it: the value of
  \<open>time.time()\<close> read by the loop condition, the answer of \<open>stdout.readable()\<close>, and the
  answer of \<open>stdout.read(1)\<close> (\<open>None\<close> is the empty string, \<open>Some c\<close> one character).
  The pipe is a blocking one: \<open>read(1)\<close> returns when the daemon has written a character
  or closed its output, and \<open>Hangs\<close> is the read on a daemon that does neither.
\<close>

record tick =
  clock :: real
  readable :: bool
  read1 :: "char option io"

text \<open>
  The \<open>while time.time() - start_time < 5\<close> loop. The list holds the environment's
  answers, one \<open>tick\<close> per evaluation of the loop condition; \<open>None\<close> says that the list
  ended before the loop did. The clock is read by the loop condition only, between two
  reads.
\<close>

fun read_response :: "real \<Rightarrow> string \<Rightarrow> tick list \<Rightarrow> string io option" where
  "read_response start_time response [] = None"
| "read_response start_time response (t # ts) =
     (if clock t - start_time < 5 then
        (if readable t then
           (case read1 t of
              Raises e \<Rightarrow> Some (Raises e)
            | Escapes e \<Rightarrow> Some (Escapes e)
            | Hangs \<Rightarrow> Some Hangs
            | Returns None \<Rightarrow> read_response start_time response ts
            | Returns (Some c) \<Rightarrow>
                (let response' = response @ [c] in
                 if py_in sentinel response' then Some (Returns response')
                 else read_response start_time response' ts))
         else read_response start_time response ts)
      else Some (Returns response))"

text \<open>
  The environment of one handshake: whether \<open>Popen\<close> raises, what \<open>poll()\<close> returns after
  the two seconds of start-up (\<open>None\<close>: still running), the daemon's standard error,
  whether the write to standard input raises, the clock at the start of the loop, the
  ticks of the loop, and whether \<open>terminate()\<close> raises.
\<close>

record daemon_env =
  popen :: "unit io"
  poll :: "int option"
  stderr_text :: string
  stdin_write :: "unit io"
  start_clock :: real
  ticks :: "tick list"
  terminate :: "unit io"

text \<open>
  The test returns the updated results and what it wrote to the daemon's standard input
  (\<open>None\<close>: nothing was written). The handler is \<open>except Exception as e\<close>. The result
  \<open>None\<close> is a test that records no verdict: the answers of the loop ended, a call never
  returns, or an exception outside \<open>Exception\<close> leaves the test.
\<close>

definition record_handshake :: "qa_results \<Rightarrow> string \<Rightarrow> qa_results" where
  "record_handshake res v =
     res\<lparr>architecture_tests := (architecture_tests res)(''daemon_handshake'' \<mapsto> v)\<rparr>"

definition test_daemon_handshake ::
  "daemon_env \<Rightarrow> qa_results \<Rightarrow> (qa_results \<times> string option) option" where
  "test_daemon_handshake env res =
     (case popen env of
        Raises e \<Rightarrow> Some (record_handshake res (''FAIL - '' @ e), None)
      | Escapes e \<Rightarrow> None
      | Hangs \<Rightarrow> None
      | Returns _ \<Rightarrow>
          (case poll env of
             Some rc \<Rightarrow> Some (record_handshake res ''FAIL - Daemon crash'', None)
           | None \<Rightarrow>
               (case stdin_write env of
                  Raises e \<Rightarrow> Some (record_handshake res (''FAIL - '' @ e), None)
                | Escapes e \<Rightarrow> None
                | Hangs \<Rightarrow> None
                | Returns _ \<Rightarrow>
                    (case read_response (start_clock env) [] (ticks env) of
                       None \<Rightarrow> None
                     | Some (Raises e) \<Rightarrow>
                         Some (record_handshake res (''FAIL - '' @ e), Some test_command)
                     | Some (Escapes e) \<Rightarrow> None
                     | Some Hangs \<Rightarrow> None
                     | Some (Returns response) \<Rightarrow>
                         (case terminate env of
                            Raises e \<Rightarrow>
                              Some (record_handshake res (''FAIL - '' @ e), Some test_command)
                          | Escapes e \<Rightarrow> None
                          | Hangs \<Rightarrow> None
                          | Returns _ \<Rightarrow>
                              (if py_in sentinel response
                               then Some (record_handshake res ''PASS'', Some test_command)
                               else Some (record_handshake res ''FAIL - Protocol violation'',
                                          Some test_command)))))))"

subsection \<open>Formatting integers\<close>

text \<open>\<open>str(n)\<close> of a non-negative integer, as the f-strings \<open>{crashes}\<close> and \<open>{i}\<close> print it.\<close>

definition digit_char :: "nat \<Rightarrow> char" where
  "digit_char d = ''0123456789'' ! d"

function str_nat :: "nat \<Rightarrow> string" where
  "str_nat n = (if n < 10 then [digit_char n] else str_nat (n div 10) @ [digit_char (n mod 10)])"
  by pat_completeness auto
termination
  by (relation "measure id") auto

declare str_nat.simps [simp del]

subsection \<open>The guard \<open>if not self.axiom_path\<close>\<close>

text \<open>\<open>find_axiom_executable\<close> returns a path or \<open>None\<close>; \<open>not\<close> is also true of the empty string.\<close>

fun no_path :: "string option \<Rightarrow> bool" where
  "no_path None = True"
| "no_path (Some p) = (p = [])"

subsection \<open>\<open>section_1_architecture_verification\<close>: the binary identity check\<close>

text \<open>
  Lines 73 to 94, the first test of section 1. Without an executable the section returns
  at once; otherwise the two later tests of the section write the keys
  \<open>daemon_handshake\<close> and \<open>namespace_purity\<close> only.
\<close>

definition binary_identity :: "runner \<Rightarrow> string option \<Rightarrow> qa_results \<Rightarrow> qa_results" where
  "binary_identity sp axiom_path res =
     (if no_path axiom_path then
        res\<lparr>architecture_tests :=
          (architecture_tests res)(''binary_identity'' \<mapsto> ''FAIL - Executable not found'')\<rparr>
      else
        (case sp 0 [the axiom_path, ''--help''] 5 of
           Completed result \<Rightarrow>
             (if py_in ''AXIOM Engine v3.0'' (stdout result)
              then res\<lparr>architecture_tests :=
                     (architecture_tests res)(''binary_identity'' \<mapsto> ''PASS'')\<rparr>
              else res\<lparr>architecture_tests :=
                     (architecture_tests res)(''binary_identity'' \<mapsto> ''FAIL'')\<rparr>)
         | TimeoutExpired e \<Rightarrow>
             res\<lparr>architecture_tests :=
               (architecture_tests res)(''binary_identity'' \<mapsto> ''FAIL - '' @ e)\<rparr>
         | OtherError e \<Rightarrow>
             res\<lparr>architecture_tests :=
               (architecture_tests res)(''binary_identity'' \<mapsto> ''FAIL - '' @ e)\<rparr>))"

subsection \<open>\<open>test_latency_ping\<close>\<close>

text \<open>How the \<open>for i in range(100)\<close> loop ends.\<close>

datatype loop_exit = AllDone | CalcFailed nat | Raised string

text \<open>
  The loop from iteration \<open>i\<close> with \<open>n\<close> iterations left. It returns how it ended and the
  argument vectors of the invocations it made, in order.
\<close>

fun latency_loop :: "runner \<Rightarrow> string \<Rightarrow> nat \<Rightarrow> nat \<Rightarrow> loop_exit \<times> string list list" where
  "latency_loop sp path i 0 = (AllDone, [])"
| "latency_loop sp path i (Suc n) =
     (case sp i [path, ''1+1''] 1 of
        Completed result \<Rightarrow>
          (if returncode result \<noteq> 0 \<or> \<not> py_in ''2'' (stdout result)
           then (CalcFailed i, [[path, ''1+1'']])
           else (case latency_loop sp path (Suc i) n of
                   (ex, calls) \<Rightarrow> (ex, [path, ''1+1''] # calls)))
      | TimeoutExpired e \<Rightarrow> (Raised e, [[path, ''1+1'']])
      | OtherError e \<Rightarrow> (Raised e, [[path, ''1+1'']]))"

text \<open>
  \<open>t0\<close> and \<open>t1\<close> are the two readings of \<open>time.time()\<close>, before and after the loop. The
  test returns the results and the invocations it made.
\<close>

definition test_latency_ping ::
  "runner \<Rightarrow> real \<Rightarrow> real \<Rightarrow> string option \<Rightarrow> qa_results \<Rightarrow> qa_results \<times> string list list" where
  "test_latency_ping sp t0 t1 axiom_path res =
     (if no_path axiom_path then (res, [])
      else
        (case latency_loop sp (the axiom_path) 0 100 of
           (CalcFailed i, calls) \<Rightarrow>
             (res\<lparr>performance_tests :=
                (performance_tests res)(''latency'' \<mapsto> ''FAIL - Calc '' @ str_nat i)\<rparr>, calls)
         | (Raised e, calls) \<Rightarrow>
             (res\<lparr>performance_tests :=
                (performance_tests res)(''latency'' \<mapsto> ''FAIL - '' @ e)\<rparr>, calls)
         | (AllDone, calls) \<Rightarrow>
             (let total_time = t1 - t0;
                  avg_latency = (total_time / 100) * 1000
              in if avg_latency < 10 then
                   (res\<lparr>performance_tests :=
                      (performance_tests res)(''latency'' \<mapsto> ''PASS - SENNA SPEED'')\<rparr>, calls)
                 else if avg_latency < 100 then
                   (res\<lparr>performance_tests :=
                      (performance_tests res)(''latency'' \<mapsto> ''PASS - F1 SPEED'')\<rparr>, calls)
                 else
                   (res\<lparr>performance_tests :=
                      (performance_tests res)(''latency'' \<mapsto> ''FAIL - Too slow'')\<rparr>, calls))))"

subsection \<open>\<open>test_throughput_flood\<close>\<close>

text \<open>
  The \<open>for i in range(10)\<close> loop: the result of each invocation is dropped, an exception
  leaves the loop. \<open>None\<close>: no exception.
\<close>

fun flood_loop :: "runner \<Rightarrow> string \<Rightarrow> nat \<Rightarrow> nat \<Rightarrow> string option \<times> string list list" where
  "flood_loop sp path i 0 = (None, [])"
| "flood_loop sp path i (Suc n) =
     (case sp i [path, ''linear''] 5 of
        Completed result \<Rightarrow>
          (case flood_loop sp path (Suc i) n of
             (ex, calls) \<Rightarrow> (ex, [path, ''linear''] # calls))
      | TimeoutExpired e \<Rightarrow> (Some e, [[path, ''linear'']])
      | OtherError e \<Rightarrow> (Some e, [[path, ''linear'']]))"

text \<open>
  \<open>initial_memory\<close> and \<open>final_memory\<close> are the two readings of
  \<open>psutil.Process().memory_info().rss\<close>, the resident set size in bytes of the test
  process itself; the second is read only when the loop ends without an exception.
\<close>

definition test_throughput_flood ::
  "runner \<Rightarrow> int \<Rightarrow> int \<Rightarrow> string option \<Rightarrow> qa_results \<Rightarrow> qa_results \<times> string list list" where
  "test_throughput_flood sp initial_memory final_memory axiom_path res =
     (if no_path axiom_path then (res, [])
      else
        (case flood_loop sp (the axiom_path) 0 10 of
           (Some e, calls) \<Rightarrow>
             (res\<lparr>performance_tests :=
                (performance_tests res)(''throughput'' \<mapsto> ''FAIL - '' @ e)\<rparr>, calls)
         | (None, calls) \<Rightarrow>
             (let memory_growth = final_memory - initial_memory
              in if memory_growth < 100 * 1024 * 1024 then
                   (res\<lparr>performance_tests :=
                      (performance_tests res)(''throughput'' \<mapsto> ''PASS'')\<rparr>, calls)
                 else
                   (res\<lparr>performance_tests :=
                      (performance_tests res)(''throughput'' \<mapsto> ''WARN - Memory growth'')\<rparr>,
                    calls))))"

subsection \<open>\<open>test_linear_algebra\<close>\<close>

definition test_linear_algebra :: "runner \<Rightarrow> string option \<Rightarrow> qa_results \<Rightarrow> qa_results" where
  "test_linear_algebra sp axiom_path res =
     (if no_path axiom_path then res
      else
        (case sp 0 [the axiom_path, ''2 * 3''] 5 of
           Completed result \<Rightarrow>
             (if py_in ''6'' (stdout result)
              then res\<lparr>functional_tests :=
                     (functional_tests res)(''linear_algebra'' \<mapsto> ''PASS'')\<rparr>
              else res\<lparr>functional_tests :=
                     (functional_tests res)(''linear_algebra'' \<mapsto> ''FAIL'')\<rparr>)
         | TimeoutExpired e \<Rightarrow>
             res\<lparr>functional_tests :=
               (functional_tests res)(''linear_algebra'' \<mapsto> ''FAIL - '' @ e)\<rparr>
         | OtherError e \<Rightarrow>
             res\<lparr>functional_tests :=
               (functional_tests res)(''linear_algebra'' \<mapsto> ''FAIL - '' @ e)\<rparr>))"

subsection \<open>\<open>test_fuzzing\<close>\<close>

definition malicious_inputs :: "string list" where
  "malicious_inputs =
     [''hgfdjhgf'',
      ''1/0'',
      ''sqrt(-1)'',
      ''integrate(x, [[1,2]'',
      replicate 1000 (CHR '')''),
      replicate 10000 (CHR ''x''),
      [CHR 0x5C, CHR ''x'', CHR ''0'', CHR ''0'', CHR 0x5C, CHR ''x'', CHR ''0'', CHR ''1'',
       CHR 0x5C, CHR ''x'', CHR ''0'', CHR ''2''],
      ''../../../etc/passwd'',
      ''; rm -rf /'',
      [CHR 0x27] @ '' OR '' @ [CHR 0x27] @ ''1'' @ [CHR 0x27] @ ''='' @ [CHR 0x27] @ ''1'']"

text \<open>
  The \<open>for malicious_input in malicious_inputs\<close> loop, with the number \<open>i\<close> of the
  invocation and the running count \<open>crashes\<close>.
\<close>

fun fuzz_loop :: "runner \<Rightarrow> string \<Rightarrow> nat \<Rightarrow> string list \<Rightarrow> nat \<Rightarrow> nat" where
  "fuzz_loop sp path i [] crashes = crashes"
| "fuzz_loop sp path i (malicious_input # rest) crashes =
     (case sp i [path, malicious_input] 5 of
        Completed result \<Rightarrow>
          (if returncode result < 0
           then fuzz_loop sp path (Suc i) rest (crashes + 1)
           else fuzz_loop sp path (Suc i) rest crashes)
      | TimeoutExpired e \<Rightarrow> fuzz_loop sp path (Suc i) rest crashes
      | OtherError e \<Rightarrow> fuzz_loop sp path (Suc i) rest crashes)"

definition test_fuzzing :: "runner \<Rightarrow> string option \<Rightarrow> qa_results \<Rightarrow> qa_results" where
  "test_fuzzing sp axiom_path res =
     (if no_path axiom_path then res
      else
        (let crashes = fuzz_loop sp (the axiom_path) 0 malicious_inputs 0
         in if crashes = 0
            then res\<lparr>security_tests := (security_tests res)(''fuzzing'' \<mapsto> ''PASS'')\<rparr>
            else res\<lparr>security_tests :=
                   (security_tests res)(''fuzzing'' \<mapsto>
                      ''FAIL - '' @ str_nat crashes @ '' crashes'')\<rparr>))"

subsection \<open>\<open>test_buffer_overflow\<close>\<close>

definition long_input :: string where
  "long_input = ''1+'' @ concat (replicate 10000 ''2+'') @ ''3''"

definition test_buffer_overflow :: "runner \<Rightarrow> string option \<Rightarrow> qa_results \<Rightarrow> qa_results" where
  "test_buffer_overflow sp axiom_path res =
     (if no_path axiom_path then res
      else
        (case sp 0 [the axiom_path, long_input] 10 of
           Completed result \<Rightarrow>
             (if returncode result \<ge> 0
              then res\<lparr>security_tests :=
                     (security_tests res)(''buffer_overflow'' \<mapsto> ''PASS'')\<rparr>
              else res\<lparr>security_tests :=
                     (security_tests res)(''buffer_overflow'' \<mapsto> ''FAIL - Crash'')\<rparr>)
         | TimeoutExpired e \<Rightarrow>
             res\<lparr>security_tests :=
               (security_tests res)(''buffer_overflow'' \<mapsto> ''PASS - Timeout'')\<rparr>
         | OtherError e \<Rightarrow>
             res\<lparr>security_tests :=
               (security_tests res)(''buffer_overflow'' \<mapsto> ''FAIL - '' @ e)\<rparr>))"

section \<open>The calculator GUI: \<open>gui/python/ogulator_gui.py\<close>\<close>

subsection \<open>Python values and string methods\<close>

text \<open>The values that the result dictionaries of the GUI hold.\<close>

datatype pyval = PyBool bool | PyStr string | PyFloat real | PyNone

type_synonym pydict = "string \<rightharpoonup> pyval"

text \<open>The truth value of \<open>d.get(k)\<close>: a missing key gives \<open>None\<close>, which is false.\<close>

fun truthy :: "pyval option \<Rightarrow> bool" where
  "truthy None = False"
| "truthy (Some (PyBool b)) = b"
| "truthy (Some (PyStr s)) = (s \<noteq> [])"
| "truthy (Some (PyFloat x)) = (x \<noteq> 0)"
| "truthy (Some PyNone) = False"

text \<open>
  The character classes are those of the ASCII range: \<open>str.isspace\<close> and \<open>\s\<close> hold of
  tab, newline, vertical tab, form feed, carriage return, the four separators
  \<open>0x1C\<close> to \<open>0x1F\<close> and the space; \<open>\d\<close> of the ten digits. Characters outside ASCII
  are several bytes here and belong to no class.
\<close>

definition is_space :: "char \<Rightarrow> bool" where
  "is_space c = (c \<in> set [CHR 0x09, CHR 0x0A, CHR 0x0B, CHR 0x0C, CHR 0x0D,
                             CHR 0x1C, CHR 0x1D, CHR 0x1E, CHR 0x1F, CHR 0x20])"

definition is_digit :: "char \<Rightarrow> bool" where
  "is_digit c = (c \<in> set ''0123456789'')"

text \<open>\<open>s.strip()\<close>\<close>

definition py_strip :: "string \<Rightarrow> string" where
  "py_strip s = rev (dropWhile is_space (rev (dropWhile is_space s)))"

text \<open>\<open>s.split(sep)\<close> for a separator of one character: the empty string gives \<open>['']\<close>.\<close>

fun py_split :: "char \<Rightarrow> string \<Rightarrow> string list" where
  "py_split sep [] = [[]]"
| "py_split sep (c # cs) =
     (if c = sep then [] # py_split sep cs
      else (case py_split sep cs of
              [] \<Rightarrow> [[c]]
            | w # ws \<Rightarrow> (c # w) # ws))"

text \<open>\<open>s.lower()\<close> on the letters of ASCII.\<close>

definition lower_char :: "char \<Rightarrow> char" where
  "lower_char c =
     (if c \<in> set ''ABCDEFGHIJKLMNOPQRSTUVWXYZ'' then char_of (of_char c + (32::nat)) else c)"

definition py_lower :: "string \<Rightarrow> string" where
  "py_lower s = map lower_char s"

text \<open>
  \<open>round(x, 1)\<close>: to one decimal, halves to the even neighbour (on the real number; the
  binary representation of the float is not modelled).
\<close>

definition round_half_even :: "real \<Rightarrow> int" where
  "round_half_even x =
     (let f = \<lfloor>x\<rfloor>; d = x - of_int f
      in if d < 1 / 2 then f else if 1 / 2 < d then f + 1 else if even f then f else f + 1)"

definition py_round1 :: "real \<Rightarrow> real" where
  "py_round1 x = of_int (round_half_even (x * 10)) / 10"

subsection \<open>The Python runtime as a parameter\<close>

text \<open>
  The objects that the evaluation environment binds: a named object of the
  interpreter, the \<open>math\<close> module or NumPy, or a dictionary.
\<close>

datatype pyobj = Obj string | Dict "(string \<times> pyobj) list"

text \<open>
  The built-ins \<open>eval\<close> and \<open>str\<close> are the interpreter's, not the repository's. The GUI
  functions take them as a parameter: \<open>py_eval env s\<close> is what \<open>eval(s, env)\<close> returns
  or the exception it raises, \<open>py_str v\<close> the same for \<open>str(v)\<close>, and \<open>float_str x\<close> is
  the text of the float \<open>x\<close> in an f-string.
\<close>

record 'v runtime =
  py_eval :: "(string \<times> pyobj) list \<Rightarrow> string \<Rightarrow> 'v io"
  py_str :: "'v \<Rightarrow> string io"
  float_str :: "real \<Rightarrow> string"

subsection \<open>\<open>CppEngineInterface.execute_command\<close>\<close>

definition loading_messages :: "string list" where
  "loading_messages =
     [''loaded successfully'', ''NumPy'', ''SciPy'', ''Matplotlib'', ''Pandas'', ''SymPy'']"

text \<open>The list comprehension \<open>clean_lines\<close> over the lines of the stripped output.\<close>

definition clean_lines_of :: "string \<Rightarrow> string list" where
  "clean_lines_of result_text =
     map py_strip
       (filter (\<lambda>line. py_strip line \<noteq> [] \<and> \<not> list_ex (\<lambda>msg. py_in msg line) loading_messages)
          (py_split (CHR 0x0A) result_text))"

text \<open>
  \<open>t0\<close> and \<open>t1\<close> are the readings of \<open>time.time()\<close> before and after the invocation.
  The engine is invoked once, with the command as its only argument and a timeout of
  three seconds.
\<close>

definition execute_command ::
  "string option \<Rightarrow> runner \<Rightarrow> real \<Rightarrow> real \<Rightarrow> string \<Rightarrow> pydict" where
  "execute_command executable_path sp t0 t1 command =
     (if no_path executable_path then
        [''success'' \<mapsto> PyBool False,
         ''error'' \<mapsto> PyStr ''C++ engine not available'',
         ''fallback_needed'' \<mapsto> PyBool True]
      else
        (case sp 0 [the executable_path, command] 3 of
           Completed result \<Rightarrow>
             (let execution_time = (t1 - t0) * 1000 in
              if returncode result = 0 then
                (let result_text = py_strip (stdout result);
                     clean_lines = clean_lines_of result_text
                 in if clean_lines \<noteq> [] then
                      [''success'' \<mapsto> PyBool True,
                       ''result'' \<mapsto> PyStr (last clean_lines),
                       ''execution_time'' \<mapsto> PyFloat (py_round1 execution_time),
                       ''senna_speed'' \<mapsto> PyBool (execution_time < 100),
                       ''f1_speed'' \<mapsto> PyBool (execution_time < 200)]
                    else
                      [''success'' \<mapsto> PyBool True,
                       ''result'' \<mapsto> PyStr ''Processed'',
                       ''execution_time'' \<mapsto> PyFloat (py_round1 execution_time)])
              else
                [''success'' \<mapsto> PyBool False,
                 ''error'' \<mapsto> PyStr (if stderr result \<noteq> [] then py_strip (stderr result)
                                       else ''Execution failed''),
                 ''fallback_needed'' \<mapsto> PyBool True])
         | TimeoutExpired e \<Rightarrow>
             [''success'' \<mapsto> PyBool False,
              ''error'' \<mapsto> PyStr ''C++ engine timeout (3s) - using Python fallback'',
              ''fallback_needed'' \<mapsto> PyBool True]
         | OtherError e \<Rightarrow>
             [''success'' \<mapsto> PyBool False,
              ''error'' \<mapsto> PyStr e,
              ''fallback_needed'' \<mapsto> PyBool True]))"

subsection \<open>\<open>python_math_fallback\<close>\<close>

text \<open>
  \<open>safe_dict\<close>, in the order of the literal; \<open>update\<close> appends the NumPy names, none of
  which is bound before.
\<close>

definition safe_dict :: "bool \<Rightarrow> (string \<times> pyobj) list" where
  "safe_dict numpy =
     [(''__builtins__'', Dict []),
      (''abs'', Obj ''abs''), (''round'', Obj ''round''), (''pow'', Obj ''pow''),
      (''min'', Obj ''min''), (''max'', Obj ''max''),
      (''sin'', Obj ''math.sin''), (''cos'', Obj ''math.cos''), (''tan'', Obj ''math.tan''),
      (''asin'', Obj ''math.asin''), (''acos'', Obj ''math.acos''), (''atan'', Obj ''math.atan''),
      (''log'', Obj ''math.log''), (''log10'', Obj ''math.log10''), (''exp'', Obj ''math.exp''),
      (''sqrt'', Obj ''math.sqrt''), (''pi'', Obj ''math.pi''), (''e'', Obj ''math.e''),
      (''degrees'', Obj ''math.degrees''), (''radians'', Obj ''math.radians''),
      (''factorial'', Obj ''math.factorial''), (''ceil'', Obj ''math.ceil''),
      (''floor'', Obj ''math.floor'')]
     @ (if numpy then
          [(''np'', Obj ''numpy''), (''array'', Obj ''numpy.array''), (''sum'', Obj ''numpy.sum''),
           (''mean'', Obj ''numpy.mean''), (''std'', Obj ''numpy.std'')]
        else [])"

text \<open>
  The \<open>try\<close> block and its handler \<open>except Exception as e\<close>: an exception of \<open>eval\<close> or of
  \<open>str\<close> that derives from \<open>Exception\<close> becomes the dictionary of the failure. The
  handler does not catch an exception outside \<open>Exception\<close>: it leaves the function, and an
  evaluation that never returns keeps the function from returning.
\<close>

definition fallback_failure :: "string \<Rightarrow> pydict" where
  "fallback_failure e =
     [''success'' \<mapsto> PyBool False, ''result'' \<mapsto> PyNone, ''error'' \<mapsto> PyStr e]"

definition python_math_fallback :: "'v runtime \<Rightarrow> bool \<Rightarrow> string \<Rightarrow> pydict io" where
  "python_math_fallback rt numpy command =
     (case py_eval rt (safe_dict numpy) command of
        Raises e \<Rightarrow> Returns (fallback_failure e)
      | Escapes e \<Rightarrow> Escapes e
      | Hangs \<Rightarrow> Hangs
      | Returns result \<Rightarrow>
          (case py_str rt result of
             Raises e \<Rightarrow> Returns (fallback_failure e)
           | Escapes e \<Rightarrow> Escapes e
           | Hangs \<Rightarrow> Hangs
           | Returns s \<Rightarrow>
               Returns [''success'' \<mapsto> PyBool True, ''result'' \<mapsto> PyStr s,
                        ''fallback'' \<mapsto> PyBool True]))"

subsection \<open>\<open>is_simple_arithmetic\<close>\<close>

text \<open>
  The four patterns are sequences of character classes, each taken once, zero or more
  times (\<open>*\<close>) or one or more times (\<open>+\<close>), between \<open>^\<close> and \<open>$\<close>.
\<close>

datatype rx_item = One "char \<Rightarrow> bool" | Star "char \<Rightarrow> bool" | Plus "char \<Rightarrow> bool"

text \<open>
  Whether \<open>re.match\<close> finds a match of such a pattern: the matcher backtracks over the
  repetitions, and \<open>$\<close> holds at the end of the string and before a newline that ends it.
\<close>

fun rx_match :: "rx_item list \<Rightarrow> string \<Rightarrow> bool" where
  "rx_match [] s = (s = [] \<or> s = [CHR 0x0A])"
| "rx_match (One p # items) [] = False"
| "rx_match (One p # items) (c # cs) = (p c \<and> rx_match items cs)"
| "rx_match (Plus p # items) [] = False"
| "rx_match (Plus p # items) (c # cs) = (p c \<and> rx_match (Star p # items) cs)"
| "rx_match (Star p # items) [] = rx_match items []"
| "rx_match (Star p # items) (c # cs) =
     (rx_match items (c # cs) \<or> (p c \<and> rx_match (Star p # items) cs))"

definition is_operator :: "char \<Rightarrow> bool" where
  "is_operator c = (c \<in> set ''+-*/'')"

definition simple_patterns :: "rx_item list list" where
  "simple_patterns =
     [[Star is_space, Plus is_digit, Star is_space, One is_operator, Star is_space,
       Plus is_digit, Star is_space],
      [Star is_space, One (\<lambda>c. c = CHR ''(''), Star is_space, Plus is_digit, Star is_space,
       One is_operator, Star is_space, Plus is_digit, Star is_space,
       One (\<lambda>c. c = CHR '')''), Star is_space, One is_operator, Star is_space,
       Plus is_digit, Star is_space],
      [Star is_space, Plus is_digit, Star is_space, One (\<lambda>c. c = CHR ''*''),
       One (\<lambda>c. c = CHR ''*''), Star is_space, Plus is_digit, Star is_space],
      [Star is_space, Plus is_digit, Star is_space, One is_operator, Star is_space,
       Plus is_digit, Star is_space, One is_operator, Star is_space, Plus is_digit,
       Star is_space]]"

definition is_simple_arithmetic :: "string \<Rightarrow> bool" where
  "is_simple_arithmetic command = list_ex (\<lambda>pattern. rx_match pattern command) simple_patterns"

subsection \<open>The state of the window\<close>

text \<open>
  The attributes of \<open>OGULATORCalculatorGUI\<close> and the widgets that the command functions
  read and write. \<open>cpp_engine\<close> is \<open>None\<close> or the engine interface, which holds its
  executable path; \<open>scheduled\<close> are the callbacks handed to \<open>root.after\<close>; \<open>output_text\<close>
  holds the inserted lines with their tags, \<open>history\<close> the text, the tag and the
  timestamp of each.
\<close>

record gui =
  engine_available :: bool
  cpp_engine :: "string option option"
  numpy_available :: bool
  python_repl_mode :: bool
  current_mode :: string
  mode_label :: string
  input_mode_label :: string
  status_label :: string
  input_text :: string
  progress_running :: bool
  output_text :: "(string \<times> string) list"
  history :: "(string \<times> string \<times> string) list"
  scheduled :: "string list"

definition add_output :: "string \<Rightarrow> string \<Rightarrow> string \<Rightarrow> gui \<Rightarrow> gui" where
  "add_output timestamp text tag g =
     g\<lparr>output_text := output_text g @ [(''['' @ timestamp @ ''] '' @ text @ [CHR 0x0A], tag)],
       history := history g @ [(text, tag, timestamp)]\<rparr>"

definition set_status :: "string \<Rightarrow> gui \<Rightarrow> gui" where
  "set_status message g = g\<lparr>status_label := message\<rparr>"

definition clear_input :: "gui \<Rightarrow> gui" where
  "clear_input g = g\<lparr>input_text := []\<rparr>"

subsection \<open>\<open>change_mode_command\<close>\<close>

definition mode_map :: "(string \<times> string) list" where
  "mode_map =
     [(''algebraic'', ''ALGEBRAIC''), (''linear'', ''LINEAR SYSTEM''),
      (''stats'', ''STATISTICS''), (''symbolic'', ''SYMBOLIC''), (''plot'', ''PLOTTING''),
      (''units'', ''UNITS''), (''python'', ''PYTHON''), (''numpy'', ''NUMPY''),
      (''scipy'', ''SCIPY''), (''matplotlib'', ''MATPLOTLIB''), (''pandas'', ''PANDAS''),
      (''sympy'', ''SYMPY'')]"

text \<open>The check mark of the message, U+2713.\<close>

definition check_mark :: string where
  "check_mark = [CHR 0xE2, CHR 0x9C, CHR 0x93]"

definition change_mode_command :: "gui \<Rightarrow> string \<Rightarrow> pydict \<times> gui" where
  "change_mode_command g mode =
     (case map_of mode_map mode of
        Some m \<Rightarrow>
          ([''success'' \<mapsto> PyBool True,
            ''result'' \<mapsto> PyStr (check_mark @ '' Switched to '' @ m @ '' mode'')],
           g\<lparr>current_mode := m, mode_label := ''Mode: '' @ m\<rparr>)
      | None \<Rightarrow>
          ([''success'' \<mapsto> PyBool False,
            ''result'' \<mapsto> PyNone,
            ''error'' \<mapsto> PyStr (''Unknown mode: '' @ mode)],
           g))"

subsection \<open>\<open>execute_math_command\<close>\<close>

text \<open>
  The function returns its result dictionary (or the exception that leaves it), the
  state of the window, and the argument vectors of the engine invocations it made.
  \<open>command.split(' ', 1)[1]\<close> is what follows the first space.
\<close>

definition engine_calls :: "string option \<Rightarrow> string \<Rightarrow> string list list" where
  "engine_calls executable_path command =
     (if no_path executable_path then [] else [[the executable_path, command]])"

text \<open>
  Lines 601 to 616, the end of the function: the engine when there is one, with the
  local evaluator after its failure, and the local evaluator alone otherwise.
\<close>

definition engine_then_fallback ::
  "'v runtime \<Rightarrow> runner \<Rightarrow> real \<Rightarrow> real \<Rightarrow> gui \<Rightarrow> string \<Rightarrow> pydict io \<times> gui \<times> string list list" where
  "engine_then_fallback rt sp t0 t1 g command =
     (if engine_available g \<and> cpp_engine g \<noteq> None then
        (let executable_path = the (cpp_engine g);
             cpp_result = execute_command executable_path sp t0 t1 command;
             calls = engine_calls executable_path command
         in if truthy (cpp_result ''success'') then (Returns cpp_result, g, calls)
            else
              (case python_math_fallback rt (numpy_available g) command of
                 Returns fallback_result \<Rightarrow>
                   (if truthy (fallback_result ''success'')
                    then (Returns (fallback_result(''cpp_failed'' \<mapsto> PyBool True)), g, calls)
                    else (Returns cpp_result, g, calls))
               | Raises e \<Rightarrow> (Raises e, g, calls)
               | Escapes e \<Rightarrow> (Escapes e, g, calls)
               | Hangs \<Rightarrow> (Hangs, g, calls)))
      else (python_math_fallback rt (numpy_available g) command, g, []))"

definition execute_math_command ::
  "'v runtime \<Rightarrow> runner \<Rightarrow> real \<Rightarrow> real \<Rightarrow> gui \<Rightarrow> string \<Rightarrow> pydict io \<times> gui \<times> string list list" where
  "execute_math_command rt sp t0 t1 g command =
     (if py_lower command = ''help'' then
        (Returns [''success'' \<mapsto> PyBool True,
                  ''result'' \<mapsto> PyStr ''Help dialog opened'',
                  ''special'' \<mapsto> PyBool True],
         g\<lparr>scheduled := scheduled g @ [''show_help'']\<rparr>, [])
      else if prefix ''mode '' (py_lower command) then
        (case dropWhile (\<lambda>c. c \<noteq> CHR '' '') command of
           [] \<Rightarrow> (Raises ''list index out of range'', g, [])
         | sp1 # mode \<Rightarrow>
             (case change_mode_command g mode of (r, g') \<Rightarrow> (Returns r, g', [])))
      else if py_lower command \<in> set [''python'', ''py'', ''repl''] then
        (Returns [''success'' \<mapsto> PyBool True,
                  ''result'' \<mapsto> PyStr (''=== Python Interactive REPL Mode ==='' @ [CHR 0x0A]
                                       @ ''Type exit() to return to calculator mode''),
                  ''mode_change'' \<mapsto> PyBool True],
         g\<lparr>python_repl_mode := True\<rparr>, [])
      else if is_simple_arithmetic command then
        (case python_math_fallback rt (numpy_available g) command of
           Returns fallback_result \<Rightarrow>
             (if truthy (fallback_result ''success'')
              then (Returns (fallback_result(''fast_eval'' \<mapsto> PyBool True)), g, [])
              else engine_then_fallback rt sp t0 t1 g command)
         | Raises e \<Rightarrow> (Raises e, g, [])
         | Escapes e \<Rightarrow> (Escapes e, g, [])
         | Hangs \<Rightarrow> (Hangs, g, []))
      else engine_then_fallback rt sp t0 t1 g command)"

subsection \<open>\<open>handle_command_result\<close>\<close>

text \<open>The emoji of the messages, as their UTF-8 bytes.\<close>

definition racing_car :: string where
  "racing_car = [CHR 0xF0, CHR 0x9F, CHR 0x8F, CHR 0x8E, CHR 0xEF, CHR 0xB8, CHR 0x8F]"

definition chequered_flag :: string where
  "chequered_flag = [CHR 0xF0, CHR 0x9F, CHR 0x8F, CHR 0x81]"

definition rocket :: string where
  "rocket = [CHR 0xF0, CHR 0x9F, CHR 0x9A, CHR 0x80]"

definition high_voltage :: string where
  "high_voltage = [CHR 0xE2, CHR 0x9A, CHR 0xA1]"

definition snake :: string where
  "snake = [CHR 0xF0, CHR 0x9F, CHR 0x90, CHR 0x8D]"

definition right_arrow :: string where
  "right_arrow = [CHR 0xE2, CHR 0x86, CHR 0x92]"

definition cross_mark :: string where
  "cross_mark = [CHR 0xE2, CHR 0x9D, CHR 0x8C]"

text \<open>A value inside an f-string. \<open>d.get(k, 0)\<close> of a missing key prints \<open>0\<close>.\<close>

fun format_val :: "'v runtime \<Rightarrow> pyval \<Rightarrow> string" where
  "format_val rt (PyStr s) = s"
| "format_val rt (PyBool b) = (if b then ''True'' else ''False'')"
| "format_val rt (PyFloat x) = float_str rt x"
| "format_val rt PyNone = ''None''"

definition format_time :: "'v runtime \<Rightarrow> pyval option \<Rightarrow> string" where
  "format_time rt v = (case v of None \<Rightarrow> ''0'' | Some t \<Rightarrow> format_val rt t)"

text \<open>The \<open>if\<close>/\<open>elif\<close> chain that chooses the line shown for a successful result.\<close>

definition success_line :: "'v runtime \<Rightarrow> pydict \<Rightarrow> string \<Rightarrow> string" where
  "success_line rt result result_text =
     (if truthy (result ''senna_speed'') then
        racing_car @ '' '' @ result_text @ '' (SENNA SPEED: ''
          @ format_time rt (result ''execution_time'') @ ''ms!)''
      else if truthy (result ''f1_speed'') then
        chequered_flag @ '' '' @ result_text @ '' (F1 SPEED: ''
          @ format_time rt (result ''execution_time'') @ ''ms)''
      else if truthy (result ''execution_time'') then
        rocket @ '' '' @ result_text @ '' (C++ engine: ''
          @ format_time rt (result ''execution_time'') @ ''ms)''
      else if truthy (result ''fast_eval'') then
        high_voltage @ '' '' @ result_text @ '' (Fast Python)''
      else if truthy (result ''fallback'') then
        snake @ '' '' @ result_text @ '' (Python fallback)''
      else if truthy (result ''cpp_failed'') then
        snake @ '' '' @ result_text @ '' (C++ timeout '' @ right_arrow @ '' Python)''
      else if truthy (result ''is_python'') then
        ''>>> '' @ result_text
      else
        rocket @ '' '' @ result_text @ '' (C++ engine)'')"

text \<open>The last lines of the function: the status, and the input cleared outside the REPL.\<close>

definition finish_command :: "pydict \<Rightarrow> gui \<Rightarrow> gui" where
  "finish_command result g =
     (let g' = set_status ''Ready'' g
      in if \<not> python_repl_mode g' \<and> \<not> truthy (result ''special'') then clear_input g' else g')"

text \<open>The line of an error and what both branches of the failure end with.\<close>

definition show_error :: "'v runtime \<Rightarrow> string \<Rightarrow> pydict \<Rightarrow> gui \<Rightarrow> gui" where
  "show_error rt timestamp result g =
     (let error_msg = (case result ''error'' of
                         None \<Rightarrow> ''Unknown error''
                       | Some e \<Rightarrow> format_val rt e)
      in finish_command result
           (add_output timestamp (cross_mark @ '' Error: '' @ error_msg) ''error'' g))"

text \<open>
  \<open>timestamp\<close> is the time of day that \<open>add_output\<close> reads. \<open>result['success']\<close> raises
  \<open>KeyError\<close> on a dictionary without the key; \<open>result['result']\<close> is read only after
  \<open>result.get('result')\<close> was found true. The fallback of the failure branch runs inside
  \<open>try\<close> with a bare \<open>except: pass\<close>, which catches every exception and goes on to the
  error line; a fallback that never returns keeps the handler from returning.
\<close>

definition handle_command_result ::
  "'v runtime \<Rightarrow> string \<Rightarrow> gui \<Rightarrow> pydict \<Rightarrow> string \<Rightarrow> gui io" where
  "handle_command_result rt timestamp g0 result command =
     (let g1 = g0\<lparr>progress_running := False\<rparr>;
          g2 = (if truthy (result ''mode_change'') then
                  (if python_repl_mode g1
                   then g1\<lparr>input_mode_label := snake @ '' Python REPL''\<rparr>
                   else g1\<lparr>input_mode_label := ''Normal Mode''\<rparr>)
                else g1)
      in case result ''success'' of
           None \<Rightarrow> Raises ''KeyError''
         | Some ok \<Rightarrow>
             if truthy (Some ok) then
               (if truthy (result ''result'') then
                  Returns (finish_command result
                    (add_output timestamp
                       (success_line rt result (format_val rt (the (result ''result''))))
                       ''result'' g2))
                else Returns (finish_command result g2))
             else if truthy (result ''fallback_needed'') then
               (case python_math_fallback rt (numpy_available g2) command of
                  Returns fallback_result \<Rightarrow>
                    (if truthy (fallback_result ''success'') then
                       Returns (finish_command result
                         (add_output timestamp
                            (snake @ '' '' @ format_val rt (the (fallback_result ''result''))
                               @ '' (Auto-fallback)'')
                            ''result'' g2))
                     else Returns (show_error rt timestamp result g2))
                | Raises e \<Rightarrow> Returns (show_error rt timestamp result g2)
                | Escapes e \<Rightarrow> Returns (show_error rt timestamp result g2)
                | Hangs \<Rightarrow> Hangs)
             else Returns (show_error rt timestamp result g2))"

subsection \<open>\<open>execute_command_thread\<close>\<close>

text \<open>
  What happens to a submitted command: the thread computes the result, in the REPL with
  \<open>execute_python_command\<close> and otherwise with \<open>execute_math_command\<close>, and hands it to
  \<open>handle_command_result\<close> through \<open>root.after\<close>; an exception derived from \<open>Exception\<close>
  becomes the dictionary of an error, handled the same way. The function of the REPL
  runs \<open>exec\<close> on persistent globals and no engine: it is the parameter \<open>repl\<close>. The
  result is the state of the window after the handler, with the engine invocations.
\<close>

definition execute_command_thread ::
  "'v runtime \<Rightarrow> runner \<Rightarrow> real \<Rightarrow> real \<Rightarrow> (gui \<Rightarrow> string \<Rightarrow> pydict io \<times> gui) \<Rightarrow> string
     \<Rightarrow> gui \<Rightarrow> string \<Rightarrow> gui io \<times> string list list" where
  "execute_command_thread rt sp t0 t1 repl timestamp g command =
     (case (if python_repl_mode g
            then (case repl g command of (r, g') \<Rightarrow> (r, g', []))
            else execute_math_command rt sp t0 t1 g command) of
        (Returns result, g', calls) \<Rightarrow>
          (handle_command_result rt timestamp g' result command, calls)
      | (Raises e, g', calls) \<Rightarrow>
          (handle_command_result rt timestamp g'
             [''success'' \<mapsto> PyBool False, ''result'' \<mapsto> PyNone, ''error'' \<mapsto> PyStr e]
             command, calls)
      | (Escapes e, g', calls) \<Rightarrow> (Escapes e, calls)
      | (Hangs, g', calls) \<Rightarrow> (Hangs, calls))"

section \<open>Environments used as examples\<close>

text \<open>The ticks of a daemon that writes \<open>s\<close>, one character per tick, at once.\<close>

definition answer_ticks :: "string \<Rightarrow> tick list" where
  "answer_ticks s = map (\<lambda>c. \<lparr> clock = 0, readable = True, read1 = Returns (Some c) \<rparr>) s"

text \<open>A tick at which the five seconds are over.\<close>

definition late_tick :: tick where
  "late_tick = \<lparr> clock = 6, readable = True, read1 = Returns None \<rparr>"

text \<open>A daemon that answers \<open>4\<close>, a newline and the sentinel.\<close>

definition prompt_daemon :: daemon_env where
  "prompt_daemon = \<lparr> popen = Returns (), poll = None, stderr_text = [],
     stdin_write = Returns (), start_clock = 0,
     ticks = answer_ticks (''4'' @ [CHR 0x0A] @ sentinel) @ [late_tick], terminate = Returns () \<rparr>"

text \<open>
  A daemon that writes nothing and keeps its output open: the first \<open>read(1)\<close> never
  returns. The tick after it is never reached.
\<close>

definition silent_daemon :: daemon_env where
  "silent_daemon = \<lparr> popen = Returns (), poll = None, stderr_text = [],
     stdin_write = Returns (), start_clock = 0,
     ticks = [\<lparr> clock = 0, readable = True, read1 = Hangs \<rparr>, late_tick],
     terminate = Returns () \<rparr>"

text \<open>
  A daemon that writes \<open>4\<close> and closes its output twelve seconds later: the first read
  returns the character, the second one is started a hundredth of a second after the
  start and returns the empty string when the output is closed, and only then is the
  loop condition evaluated again.
\<close>

definition slow_daemon :: daemon_env where
  "slow_daemon = \<lparr> popen = Returns (), poll = None, stderr_text = [],
     stdin_write = Returns (), start_clock = 0,
     ticks = [\<lparr> clock = 0, readable = True, read1 = Returns (Some (CHR ''4'')) \<rparr>,
              \<lparr> clock = 0.01, readable = True, read1 = Returns None \<rparr>,
              \<lparr> clock = 12, readable = True, read1 = Returns None \<rparr>],
     terminate = Returns () \<rparr>"

text \<open>Engines that answer every invocation alike.\<close>

definition nonzero_engine :: runner where
  "nonzero_engine i argv t = Completed \<lparr> returncode = 1, stdout = [], stderr = ''error'' \<rparr>"

definition hanging_engine :: runner where
  "hanging_engine i argv t = TimeoutExpired ''timed out''"

definition help_engine :: runner where
  "help_engine i argv t =
     Completed \<lparr> returncode = 0, stdout = ''AXIOM Engine v3.0 - help'', stderr = [] \<rparr>"

definition six_engine :: runner where
  "six_engine i argv t = Completed \<lparr> returncode = 0, stdout = ''6'', stderr = [] \<rparr>"

definition two_engine :: runner where
  "two_engine i argv t = Completed \<lparr> returncode = 0, stdout = ''2'', stderr = [] \<rparr>"

text \<open>An engine whose thirteenth invocation fails.\<close>

definition thirteenth_fails_engine :: runner where
  "thirteenth_fails_engine i argv t =
     (if i = 12 then Completed \<lparr> returncode = 1, stdout = [], stderr = ''error'' \<rparr>
      else Completed \<lparr> returncode = 0, stdout = ''2'', stderr = [] \<rparr>)"

text \<open>A runtime that knows one sum, and a window with an engine, waiting for a result.\<close>

definition sum_runtime :: "nat runtime" where
  "sum_runtime =
     \<lparr> py_eval = (\<lambda>env s. if s = ''2+3'' then Returns 5 else Raises ''invalid syntax''),
       py_str = (\<lambda>v. Returns (str_nat v)),
       float_str = (\<lambda>x. ''0.0'') \<rparr>"

definition idle_gui :: gui where
  "idle_gui = \<lparr> engine_available = True, cpp_engine = Some (Some ''cpp_dynamic_calc''),
     numpy_available = False, python_repl_mode = False, current_mode = ''ALGEBRAIC'',
     mode_label = ''Mode: ALGEBRAIC'', input_mode_label = ''Normal Mode'',
     status_label = ''Executing...'', input_text = ''2+3'', progress_running = True,
     output_text = [], history = [], scheduled = [] \<rparr>"

text \<open>
  What the interpreter (CPython 3.11) answers at five commands, in the environment of
  \<open>python_math_fallback\<close>: \<open>1 or foo\<close> is \<open>1\<close>, since \<open>or\<close> does not evaluate its right operand
  after a true left one; two quotes are the empty string; \<open>foo\<close> alone raises
  \<open>NameError\<close>; \<open>10**5000\<close> is an integer of 5001 digits, of which \<open>str\<close> raises
  \<open>ValueError\<close>, as of every integer of more than 4300 digits; and the generator
  expression below finds the class \<open>BaseException\<close> among the subclasses of \<open>object\<close>
  and raises it, with the empty text. At any other command the runtime is left
  unspecified.
\<close>

datatype pyvalue = IntVal nat | StrVal string

definition throw_base_exception :: string where
  "throw_base_exception =
     ''(x for x in ()).throw([c for c in ().__class__.__base__.__subclasses__() ''
     @ ''if c.__name__ == '' @ [CHR 0x27] @ ''BaseException'' @ [CHR 0x27] @ ''][0])''"

definition recorded_answers :: "(string \<times> pyvalue io) list" where
  "recorded_answers =
     [(''1 or foo'', Returns (IntVal 1)),
      ([CHR 0x27, CHR 0x27], Returns (StrVal [])),
      (''foo'', Raises (''name '' @ [CHR 0x27] @ ''foo'' @ [CHR 0x27] @ '' is not defined'')),
      (''10**5000'', Returns (IntVal (10 ^ 5000))),
      (throw_base_exception, Escapes [])]"

definition int_str_limit :: string where
  "int_str_limit =
     ''Exceeds the limit (4300 digits) for integer string conversion; ''
     @ ''use sys.set_int_max_str_digits() to increase the limit''"

definition recorded_str :: "pyvalue \<Rightarrow> string io" where
  "recorded_str v =
     (case v of
        IntVal n \<Rightarrow> if n < 10 ^ 4300 then Returns (str_nat n) else Raises int_str_limit
      | StrVal s \<Rightarrow> Returns s)"

definition recorded_runtime :: "pyvalue runtime" where
  "recorded_runtime =
     \<lparr> py_eval = (\<lambda>env s. case map_of recorded_answers s of
                              Some answer \<Rightarrow> answer
                            | None \<Rightarrow> undefined),
       py_str = recorded_str,
       float_str = (\<lambda>x. undefined) \<rparr>"

text \<open>The function of the REPL is not reached outside the REPL.\<close>

definition no_repl :: "gui \<Rightarrow> string \<Rightarrow> pydict io \<times> gui" where
  "no_repl g command = (Hangs, g)"

section \<open>Properties of the QA suite\<close>

subsection \<open>The handshake's test command\<close>

text \<open>
  C1. The string the handshake writes to the daemon's standard input for the test
  expression \<open>2+2\<close> should end with a newline character. It does not: what is written
  is \<open>2+2\<close> followed by a backslash and the letter \<open>n\<close>, and no newline occurs in it.
\<close>

theorem test_command_no_newline:
  "map_option snd (test_daemon_handshake prompt_daemon init_results)
     = Some (Some [CHR ''2'', CHR ''+'', CHR ''2'', CHR 0x5C, CHR ''n''])
   \<and> last test_command = CHR ''n''
   \<and> last test_command \<noteq> CHR 0x0A
   \<and> CHR 0x0A \<notin> set test_command"
  by (simp add: test_daemon_handshake_def prompt_daemon_def answer_ticks_def late_tick_def
      test_command_def sentinel_def py_in_def sublist_Cons_right)

subsection \<open>The binary identity check\<close>

text \<open>
  C5. The binary identity test records \<open>PASS\<close> if and only if an executable was found,
  its invocation with \<open>--help\<close> raises no exception, and the standard output contains
  \<open>AXIOM Engine v3.0\<close>; an invocation that completes with any other output is recorded
  as \<open>FAIL\<close>.
\<close>

theorem binary_identity_pass_iff:
  "(architecture_tests (binary_identity sp axiom_path res) ''binary_identity'' = Some ''PASS''
      \<longleftrightarrow> \<not> no_path axiom_path
          \<and> (\<exists>r. sp 0 [the axiom_path, ''--help''] 5 = Completed r
                 \<and> py_in ''AXIOM Engine v3.0'' (stdout r)))
   \<and> (\<not> no_path axiom_path \<longrightarrow>
        sp 0 [the axiom_path, ''--help''] 5 = Completed r \<longrightarrow>
        \<not> py_in ''AXIOM Engine v3.0'' (stdout r) \<longrightarrow>
        architecture_tests (binary_identity sp axiom_path res) ''binary_identity''
          = Some ''FAIL'')"
  by (cases "sp 0 [the axiom_path, ''--help''] 5") (auto simp: binary_identity_def)

theorem binary_identity_pass_iff_witness:
  "architecture_tests (binary_identity help_engine (Some ''axiom'') init_results)
      ''binary_identity'' = Some ''PASS''
   \<and> architecture_tests (binary_identity six_engine (Some ''axiom'') init_results)
      ''binary_identity'' = Some ''FAIL''"
  using binary_identity_pass_iff [of help_engine "Some ''axiom''" init_results]
    binary_identity_pass_iff [of six_engine "Some ''axiom''" init_results
       "\<lparr> returncode = 0, stdout = ''6'', stderr = [] \<rparr>"]
  by (simp add: help_engine_def six_engine_def py_in_def sublist_code)

subsection \<open>The linear algebra test\<close>

text \<open>
  C6. With an executable, the linear algebra test records \<open>PASS\<close> if and only if the
  invocation with the single argument \<open>2 * 3\<close> completes with a standard output that
  contains \<open>6\<close>; a completed invocation without it is recorded as \<open>FAIL\<close>, an
  exception as \<open>FAIL\<close> with the text of the exception.
\<close>

theorem linear_algebra_pass_iff:
  assumes "\<not> no_path axiom_path"
  shows "(functional_tests (test_linear_algebra sp axiom_path res) ''linear_algebra''
            = Some ''PASS''
          \<longleftrightarrow> (\<exists>r. sp 0 [the axiom_path, ''2 * 3''] 5 = Completed r \<and> py_in ''6'' (stdout r)))
   \<and> (sp 0 [the axiom_path, ''2 * 3''] 5 = Completed r \<longrightarrow> \<not> py_in ''6'' (stdout r) \<longrightarrow>
        functional_tests (test_linear_algebra sp axiom_path res) ''linear_algebra''
          = Some ''FAIL'')
   \<and> (sp 0 [the axiom_path, ''2 * 3''] 5 = TimeoutExpired e
        \<or> sp 0 [the axiom_path, ''2 * 3''] 5 = OtherError e \<longrightarrow>
        functional_tests (test_linear_algebra sp axiom_path res) ''linear_algebra''
          = Some (''FAIL - '' @ e))"
  using assms
  by (cases "sp 0 [the axiom_path, ''2 * 3''] 5") (auto simp: test_linear_algebra_def)

theorem linear_algebra_pass_iff_witness:
  "\<not> no_path (Some ''axiom'')
   \<and> functional_tests (test_linear_algebra six_engine (Some ''axiom'') init_results)
       ''linear_algebra'' = Some ''PASS''
   \<and> functional_tests (test_linear_algebra two_engine (Some ''axiom'') init_results)
       ''linear_algebra'' = Some ''FAIL''
   \<and> functional_tests (test_linear_algebra hanging_engine (Some ''axiom'') init_results)
       ''linear_algebra'' = Some ''FAIL - timed out''"
  using linear_algebra_pass_iff [where axiom_path = "Some ''axiom''" and sp = six_engine
       and res = init_results]
    linear_algebra_pass_iff [where axiom_path = "Some ''axiom''" and sp = two_engine
       and res = init_results and r = "\<lparr> returncode = 0, stdout = ''2'', stderr = [] \<rparr>"]
    linear_algebra_pass_iff [where axiom_path = "Some ''axiom''" and sp = hanging_engine
       and res = init_results and e = "''timed out''"]
  by (simp add: six_engine_def two_engine_def hanging_engine_def py_in_def sublist_code)

subsection \<open>Fuzzing and the buffer overflow test\<close>

lemma fuzz_loop_count:
  "fuzz_loop sp p i xs c =
     c + length (filter (\<lambda>(k, x). \<exists>r. sp k [p, x] 5 = Completed r \<and> returncode r < 0)
                  (enumerate i xs))"
proof (induction xs arbitrary: i c)
  case Nil
  then show ?case by simp
next
  case (Cons x xs)
  show ?case
    by (cases "sp i [p, x] 5") (simp_all add: Cons.IH)
qed

lemma length_malicious_inputs: "length malicious_inputs = 10"
  by (simp add: malicious_inputs_def)

text \<open>
  C2. The list of malformed inputs has ten entries. The crash count of the fuzzing test
  is the number of invocations, over these ten inputs, that complete with a negative
  return code (so a completed invocation with a return code of zero or more, a timeout
  and any other exception count nothing), and the test records \<open>PASS\<close> if and only if
  this count is zero, that is, if and only if no invocation returns a negative code.
\<close>

theorem fuzzing_counts_negative_returncodes:
  assumes "\<not> no_path axiom_path"
  shows "length malicious_inputs = 10
    \<and> fuzz_loop sp (the axiom_path) 0 malicious_inputs 0 =
        length (filter (\<lambda>(k, x). \<exists>r. sp k [the axiom_path, x] 5 = Completed r \<and> returncode r < 0)
                  (enumerate 0 malicious_inputs))
    \<and> (security_tests (test_fuzzing sp axiom_path res) ''fuzzing'' = Some ''PASS''
         \<longleftrightarrow> fuzz_loop sp (the axiom_path) 0 malicious_inputs 0 = 0)
    \<and> (security_tests (test_fuzzing sp axiom_path res) ''fuzzing'' = Some ''PASS''
         \<longleftrightarrow> (\<forall>(k, x) \<in> set (enumerate 0 malicious_inputs).
                \<forall>r. sp k [the axiom_path, x] 5 = Completed r \<longrightarrow> 0 \<le> returncode r))"
proof -
  let ?p = "the axiom_path"
  let ?neg = "\<lambda>(k, x). \<exists>r. sp k [?p, x] 5 = Completed r \<and> returncode r < 0"
  have count: "fuzz_loop sp ?p 0 malicious_inputs 0 =
      length (filter ?neg (enumerate 0 malicious_inputs))"
    using fuzz_loop_count [of sp ?p 0 malicious_inputs 0] by simp
  have verdict: "security_tests (test_fuzzing sp axiom_path res) ''fuzzing'' = Some ''PASS''
      \<longleftrightarrow> fuzz_loop sp ?p 0 malicious_inputs 0 = 0"
    using assms by (simp add: test_fuzzing_def Let_def)
  have none: "length (filter ?neg (enumerate 0 malicious_inputs)) = 0
      \<longleftrightarrow> (\<forall>(k, x) \<in> set (enumerate 0 malicious_inputs).
             \<forall>r. sp k [?p, x] 5 = Completed r \<longrightarrow> 0 \<le> returncode r)"
    by (auto simp: filter_empty_conv not_less)
  show ?thesis
    using count verdict none length_malicious_inputs by simp
qed

theorem fuzzing_counts_negative_returncodes_witness:
  "\<not> no_path (Some ''axiom'')
   \<and> fuzz_loop nonzero_engine ''axiom'' 0 malicious_inputs 0 = 0
   \<and> security_tests (test_fuzzing nonzero_engine (Some ''axiom'') init_results) ''fuzzing''
       = Some ''PASS''"
  using fuzzing_counts_negative_returncodes [of "Some ''axiom''" nonzero_engine init_results]
  by (simp add: nonzero_engine_def case_prod_unfold)

lemma fuzz_loop_timeouts:
  "\<forall>(k, x) \<in> set (enumerate i xs). \<exists>e. sp k [p, x] 5 = TimeoutExpired e
   \<Longrightarrow> fuzz_loop sp p i xs c = c"
  by (induction xs arbitrary: i) auto

text \<open>
  C7. A timeout is never recorded as a failure: in the fuzzing loop an invocation that
  raises \<open>TimeoutExpired\<close> leaves the crash count as it is (and the test records \<open>PASS\<close>
  when every invocation times out), and the buffer overflow test records
  \<open>PASS - Timeout\<close> when its invocation raises \<open>TimeoutExpired\<close>.
\<close>

theorem timeouts_are_not_failures:
  assumes "\<not> no_path axiom_path"
  shows "(sp i [the axiom_path, x] 5 = TimeoutExpired e \<longrightarrow>
            fuzz_loop sp (the axiom_path) i (x # rest) crashes
              = fuzz_loop sp (the axiom_path) (Suc i) rest crashes)
    \<and> ((\<forall>(k, x) \<in> set (enumerate 0 malicious_inputs).
            \<exists>e. sp k [the axiom_path, x] 5 = TimeoutExpired e) \<longrightarrow>
          security_tests (test_fuzzing sp axiom_path res) ''fuzzing'' = Some ''PASS'')
    \<and> (sp 0 [the axiom_path, long_input] 10 = TimeoutExpired e \<longrightarrow>
          security_tests (test_buffer_overflow sp axiom_path res) ''buffer_overflow''
            = Some ''PASS - Timeout'')"
proof (intro conjI impI)
  assume "sp i [the axiom_path, x] 5 = TimeoutExpired e"
  then show "fuzz_loop sp (the axiom_path) i (x # rest) crashes
      = fuzz_loop sp (the axiom_path) (Suc i) rest crashes"
    by simp
next
  assume "\<forall>(k, x) \<in> set (enumerate 0 malicious_inputs).
      \<exists>e. sp k [the axiom_path, x] 5 = TimeoutExpired e"
  then have "fuzz_loop sp (the axiom_path) 0 malicious_inputs 0 = 0"
    by (rule fuzz_loop_timeouts)
  with assms show "security_tests (test_fuzzing sp axiom_path res) ''fuzzing'' = Some ''PASS''"
    by (simp add: test_fuzzing_def)
next
  assume "sp 0 [the axiom_path, long_input] 10 = TimeoutExpired e"
  with assms show "security_tests (test_buffer_overflow sp axiom_path res) ''buffer_overflow''
      = Some ''PASS - Timeout''"
    by (simp add: test_buffer_overflow_def)
qed

theorem timeouts_are_not_failures_witness:
  "\<not> no_path (Some ''axiom'')
   \<and> fuzz_loop hanging_engine ''axiom'' 0 [''1/0'', ''sqrt(-1)''] 0
       = fuzz_loop hanging_engine ''axiom'' 1 [''sqrt(-1)''] 0
   \<and> security_tests (test_fuzzing hanging_engine (Some ''axiom'') init_results) ''fuzzing''
       = Some ''PASS''
   \<and> security_tests (test_buffer_overflow hanging_engine (Some ''axiom'') init_results)
        ''buffer_overflow'' = Some ''PASS - Timeout''"
  using timeouts_are_not_failures
    [of "Some ''axiom''" hanging_engine 0 "''1/0''" "''timed out''" "[''sqrt(-1)'']" 0
       init_results]
  by (simp add: hanging_engine_def case_prod_unfold)

subsection \<open>The latency and throughput tests\<close>

lemma latency_loop_snd_Suc:
  "snd (latency_loop sp p i (Suc n)) =
     (case sp i [p, ''1+1''] 1 of
        Completed r \<Rightarrow>
          if returncode r \<noteq> 0 \<or> \<not> py_in ''2'' (stdout r) then [[p, ''1+1'']]
          else [p, ''1+1''] # snd (latency_loop sp p (Suc i) n)
      | TimeoutExpired e \<Rightarrow> [[p, ''1+1'']]
      | OtherError e \<Rightarrow> [[p, ''1+1'']])"
  by (simp split: outcome.splits prod.splits)

lemma latency_loop_fst_Suc:
  "fst (latency_loop sp p i (Suc n)) =
     (case sp i [p, ''1+1''] 1 of
        Completed r \<Rightarrow>
          if returncode r \<noteq> 0 \<or> \<not> py_in ''2'' (stdout r) then CalcFailed i
          else fst (latency_loop sp p (Suc i) n)
      | TimeoutExpired e \<Rightarrow> Raised e
      | OtherError e \<Rightarrow> Raised e)"
  by (simp split: outcome.splits prod.splits)

lemma flood_loop_snd_Suc:
  "snd (flood_loop sp p i (Suc n)) =
     (case sp i [p, ''linear''] 5 of
        Completed r \<Rightarrow> [p, ''linear''] # snd (flood_loop sp p (Suc i) n)
      | TimeoutExpired e \<Rightarrow> [[p, ''linear'']]
      | OtherError e \<Rightarrow> [[p, ''linear'']])"
  by (simp split: outcome.splits prod.splits)

lemma flood_loop_fst_Suc:
  "fst (flood_loop sp p i (Suc n)) =
     (case sp i [p, ''linear''] 5 of
        Completed r \<Rightarrow> fst (flood_loop sp p (Suc i) n)
      | TimeoutExpired e \<Rightarrow> Some e
      | OtherError e \<Rightarrow> Some e)"
  by (simp split: outcome.splits prod.splits)

text \<open>An invocation of the latency test that passes its check.\<close>

lemma latency_loop_all_pass:
  "(\<forall>j<m. \<exists>r. sp (i + j) [p, ''1+1''] 1 = Completed r \<and> returncode r = 0
       \<and> py_in ''2'' (stdout r))
   \<Longrightarrow> latency_loop sp p i m = (AllDone, replicate m [p, ''1+1''])"
proof (induction m arbitrary: i)
  case 0
  show ?case by simp
next
  case (Suc m)
  from Suc.prems obtain r where r: "sp i [p, ''1+1''] 1 = Completed r" "returncode r = 0"
      "py_in ''2'' (stdout r)"
    by (auto simp: All_less_Suc2)
  from Suc.prems have "\<forall>j<m. \<exists>r. sp (Suc i + j) [p, ''1+1''] 1 = Completed r
      \<and> returncode r = 0 \<and> py_in ''2'' (stdout r)"
    by (auto simp: All_less_Suc2)
  from Suc.IH [OF this] r show ?case by simp
qed

lemma latency_loop_first_failure:
  "n < m \<Longrightarrow>
   (\<forall>j<n. \<exists>r. sp (i + j) [p, ''1+1''] 1 = Completed r \<and> returncode r = 0
       \<and> py_in ''2'' (stdout r)) \<Longrightarrow>
   \<not> (\<exists>r. sp (i + n) [p, ''1+1''] 1 = Completed r \<and> returncode r = 0
       \<and> py_in ''2'' (stdout r)) \<Longrightarrow>
   latency_loop sp p i m =
     (case sp (i + n) [p, ''1+1''] 1 of
        Completed r \<Rightarrow> CalcFailed (i + n)
      | TimeoutExpired e \<Rightarrow> Raised e
      | OtherError e \<Rightarrow> Raised e,
      replicate (Suc n) [p, ''1+1''])"
proof (induction n arbitrary: i m)
  case 0
  then obtain m' where m: "m = Suc m'" by (cases m) auto
  from "0.prems"(3) show ?case
    unfolding m by (cases "sp i [p, ''1+1''] 1") (auto split: prod.splits)
next
  case (Suc n)
  then obtain m' where m: "m = Suc m'" "n < m'" by (cases m) auto
  from Suc.prems(2) obtain r where r: "sp i [p, ''1+1''] 1 = Completed r" "returncode r = 0"
      "py_in ''2'' (stdout r)"
    by (auto simp: All_less_Suc2)
  from Suc.prems(2) have a: "\<forall>j<n. \<exists>r. sp (Suc i + j) [p, ''1+1''] 1 = Completed r
      \<and> returncode r = 0 \<and> py_in ''2'' (stdout r)"
    by (auto simp: All_less_Suc2)
  from Suc.prems(3) have b: "\<not> (\<exists>r. sp (Suc i + n) [p, ''1+1''] 1 = Completed r
      \<and> returncode r = 0 \<and> py_in ''2'' (stdout r))"
    by simp
  from Suc.IH [OF m(2) a b] r show ?case
    unfolding m by (simp split: outcome.splits)
qed

lemma flood_loop_all_complete:
  "(\<forall>j<m. \<exists>r. sp (i + j) [p, ''linear''] 5 = Completed r)
   \<Longrightarrow> flood_loop sp p i m = (None, replicate m [p, ''linear''])"
proof (induction m arbitrary: i)
  case 0
  show ?case by simp
next
  case (Suc m)
  from Suc.prems obtain r where r: "sp i [p, ''linear''] 5 = Completed r"
    by (auto simp: All_less_Suc2)
  from Suc.prems have "\<forall>j<m. \<exists>r. sp (Suc i + j) [p, ''linear''] 5 = Completed r"
    by (auto simp: All_less_Suc2)
  from Suc.IH [OF this] r show ?case by simp
qed

lemma flood_loop_first_exception:
  "n < m \<Longrightarrow>
   (\<forall>j<n. \<exists>r. sp (i + j) [p, ''linear''] 5 = Completed r) \<Longrightarrow>
   sp (i + n) [p, ''linear''] 5 = TimeoutExpired e \<or> sp (i + n) [p, ''linear''] 5 = OtherError e \<Longrightarrow>
   flood_loop sp p i m = (Some e, replicate (Suc n) [p, ''linear''])"
proof (induction n arbitrary: i m)
  case 0
  then obtain m' where m: "m = Suc m'" by (cases m) auto
  from "0.prems"(3) show ?case
    unfolding m by auto
next
  case (Suc n)
  then obtain m' where m: "m = Suc m'" "n < m'" by (cases m) auto
  from Suc.prems(2) obtain r where r: "sp i [p, ''linear''] 5 = Completed r"
    by (auto simp: All_less_Suc2)
  from Suc.prems(2) have a: "\<forall>j<n. \<exists>r. sp (Suc i + j) [p, ''linear''] 5 = Completed r"
    by (auto simp: All_less_Suc2)
  from Suc.prems(3) have b: "sp (Suc i + n) [p, ''linear''] 5 = TimeoutExpired e
      \<or> sp (Suc i + n) [p, ''linear''] 5 = OtherError e"
    by simp
  from Suc.IH [OF m(2) a b] r show ?case
    unfolding m by simp
qed

lemma flood_loop_no_exception:
  "fst (flood_loop sp p i n) = None \<longleftrightarrow> (\<forall>j<n. \<exists>r. sp (i + j) [p, ''linear''] 5 = Completed r)"
proof (induction n arbitrary: i)
  case 0
  show ?case by simp
next
  case (Suc n)
  show ?case
    unfolding flood_loop_fst_Suc
    using Suc.IH [of "Suc i"]
    by (cases "sp i [p, ''linear''] 5") (auto simp: All_less_Suc2)
qed

lemma test_latency_ping_loop:
  "\<not> no_path axiom_path \<Longrightarrow>
   latency_loop sp (the axiom_path) 0 100 = (ex, calls) \<Longrightarrow>
   snd (test_latency_ping sp t0 t1 axiom_path res) = calls
   \<and> (\<forall>i. ex = CalcFailed i \<longrightarrow>
        performance_tests (fst (test_latency_ping sp t0 t1 axiom_path res)) ''latency''
          = Some (''FAIL - Calc '' @ str_nat i))
   \<and> (\<forall>e. ex = Raised e \<longrightarrow>
        performance_tests (fst (test_latency_ping sp t0 t1 axiom_path res)) ''latency''
          = Some (''FAIL - '' @ e))"
  by (simp add: test_latency_ping_def Let_def split: loop_exit.splits)

lemma test_throughput_flood_loop:
  "\<not> no_path axiom_path \<Longrightarrow>
   flood_loop sp (the axiom_path) 0 10 = (ex, calls) \<Longrightarrow>
   snd (test_throughput_flood sp m0 m1 axiom_path res) = calls
   \<and> performance_tests (fst (test_throughput_flood sp m0 m1 axiom_path res)) ''throughput''
       = Some (case ex of
                 Some e \<Rightarrow> ''FAIL - '' @ e
               | None \<Rightarrow> if m1 - m0 < 100 * 1024 * 1024 then ''PASS''
                          else ''WARN - Memory growth'')"
  by (simp add: test_throughput_flood_def Let_def split: option.splits)

text \<open>
  The latency loop returns at the first invocation that fails: with an engine that
  exits with code 1 the test makes one invocation of \<open>1+1\<close>, not 100, and records
  \<open>FAIL - Calc 0\<close>. The throughput test reads the memory a second time only when no
  invocation raises: with an engine that times out it records a failure whatever the
  memory did. And the invocations between the two readings of the memory are the ten of
  the throughput test, of \<open>linear\<close>, not a hundred of a trivial expression.
\<close>

theorem latency_stops_at_first_failure:
  "snd (test_latency_ping nonzero_engine 0 1 (Some ''axiom'') init_results)
     = [[''axiom'', ''1+1'']]
   \<and> length (snd (test_latency_ping nonzero_engine 0 1 (Some ''axiom'') init_results)) \<noteq> 100
   \<and> performance_tests (fst (test_latency_ping nonzero_engine 0 1 (Some ''axiom'') init_results))
        ''latency'' = Some ''FAIL - Calc 0''
   \<and> performance_tests
        (fst (test_throughput_flood hanging_engine 1000 1000 (Some ''axiom'') init_results))
        ''throughput'' = Some ''FAIL - timed out''
   \<and> snd (test_throughput_flood two_engine 1000 2000 (Some ''axiom'') init_results)
       = replicate 10 [''axiom'', ''linear'']
   \<and> performance_tests
        (fst (test_throughput_flood two_engine 1000 2000 (Some ''axiom'') init_results))
        ''throughput'' = Some ''PASS''"
proof -
  have loop: "latency_loop nonzero_engine ''axiom'' 0 100 = (CalcFailed 0, [[''axiom'', ''1+1'']])"
    using latency_loop.simps(2) [of nonzero_engine "''axiom''" 0 99]
    by (simp add: nonzero_engine_def)
  have flood: "flood_loop hanging_engine ''axiom'' 0 10
      = (Some ''timed out'', [[''axiom'', ''linear'']])"
    using flood_loop.simps(2) [of hanging_engine "''axiom''" 0 9]
    by (simp add: hanging_engine_def)
  have flood2: "flood_loop two_engine ''axiom'' 0 10 = (None, replicate 10 [''axiom'', ''linear''])"
    by (rule flood_loop_all_complete) (simp add: two_engine_def)
  show ?thesis
    by (simp add: test_latency_ping_def test_throughput_flood_def loop flood flood2
        str_nat.simps digit_char_def)
qed

text \<open>
  C8, as the code has it. With an executable, the latency test invokes \<open>1+1\<close> one time
  after the other and stops after the first invocation that raises, exits with a code
  other than zero or prints no \<open>2\<close>: when invocation \<open>n\<close> (from 0) is the first such one
  it makes \<open>n + 1\<close> invocations and records the failure, and it makes 100 when none
  fails. The throughput test invokes \<open>linear\<close> and stops after the first invocation that
  raises, recording the failure; when none of its 10 invocations raises it records
  \<open>PASS\<close> if the resident set size of the test process read after them exceeds the one
  read before by less than \<open>100 * 1024 * 1024\<close> bytes and \<open>WARN - Memory growth\<close>
  otherwise. So it records \<open>PASS\<close> if and only if none of the 10 raises and the growth
  is below that bound.
\<close>

theorem latency_and_throughput_invocations:
  assumes "\<not> no_path axiom_path"
  shows
   "(n < 100 \<longrightarrow>
       (\<forall>j<n. \<exists>r. sp j [the axiom_path, ''1+1''] 1 = Completed r \<and> returncode r = 0
                  \<and> py_in ''2'' (stdout r)) \<longrightarrow>
       \<not> (\<exists>r. sp n [the axiom_path, ''1+1''] 1 = Completed r \<and> returncode r = 0
                  \<and> py_in ''2'' (stdout r)) \<longrightarrow>
       snd (test_latency_ping sp started ended axiom_path res)
         = replicate (Suc n) [the axiom_path, ''1+1'']
       \<and> performance_tests (fst (test_latency_ping sp started ended axiom_path res)) ''latency''
           = Some (case sp n [the axiom_path, ''1+1''] 1 of
                     Completed r \<Rightarrow> ''FAIL - Calc '' @ str_nat n
                   | TimeoutExpired e \<Rightarrow> ''FAIL - '' @ e
                   | OtherError e \<Rightarrow> ''FAIL - '' @ e))
    \<and> ((\<forall>j<100. \<exists>r. sp j [the axiom_path, ''1+1''] 1 = Completed r \<and> returncode r = 0
                  \<and> py_in ''2'' (stdout r)) \<longrightarrow>
       snd (test_latency_ping sp started ended axiom_path res)
         = replicate 100 [the axiom_path, ''1+1''])
    \<and> (k < 10 \<longrightarrow>
       (\<forall>j<k. \<exists>r. sp j [the axiom_path, ''linear''] 5 = Completed r) \<longrightarrow>
       sp k [the axiom_path, ''linear''] 5 = TimeoutExpired e
         \<or> sp k [the axiom_path, ''linear''] 5 = OtherError e \<longrightarrow>
       snd (test_throughput_flood sp before after axiom_path res)
         = replicate (Suc k) [the axiom_path, ''linear'']
       \<and> performance_tests (fst (test_throughput_flood sp before after axiom_path res)) ''throughput''
           = Some (''FAIL - '' @ e))
    \<and> ((\<forall>j<10. \<exists>r. sp j [the axiom_path, ''linear''] 5 = Completed r) \<longrightarrow>
       snd (test_throughput_flood sp before after axiom_path res)
         = replicate 10 [the axiom_path, ''linear'']
       \<and> performance_tests (fst (test_throughput_flood sp before after axiom_path res)) ''throughput''
           = Some (if after - before < 100 * 1024 * 1024 then ''PASS'' else ''WARN - Memory growth''))
    \<and> (performance_tests (fst (test_throughput_flood sp before after axiom_path res)) ''throughput''
          = Some ''PASS''
        \<longleftrightarrow> (\<forall>j<10. \<exists>r. sp j [the axiom_path, ''linear''] 5 = Completed r)
            \<and> after - before < 100 * 1024 * 1024)"
proof -
  let ?p = "the axiom_path"
  let ?ok = "\<lambda>j. \<exists>r. sp j [?p, ''1+1''] 1 = Completed r \<and> returncode r = 0
      \<and> py_in ''2'' (stdout r)"
  let ?done = "\<lambda>j. \<exists>r. sp j [?p, ''linear''] 5 = Completed r"
  have a: "n < 100 \<longrightarrow> (\<forall>j<n. ?ok j) \<longrightarrow> \<not> ?ok n \<longrightarrow>
       snd (test_latency_ping sp started ended axiom_path res) = replicate (Suc n) [?p, ''1+1'']
       \<and> performance_tests (fst (test_latency_ping sp started ended axiom_path res)) ''latency''
           = Some (case sp n [?p, ''1+1''] 1 of
                     Completed r \<Rightarrow> ''FAIL - Calc '' @ str_nat n
                   | TimeoutExpired e \<Rightarrow> ''FAIL - '' @ e
                   | OtherError e \<Rightarrow> ''FAIL - '' @ e)"
  proof (intro impI)
    assume n: "n < 100" and before: "\<forall>j<n. ?ok j" and at: "\<not> ?ok n"
    have loop: "latency_loop sp ?p 0 100 =
        (case sp n [?p, ''1+1''] 1 of
           Completed r \<Rightarrow> CalcFailed n
         | TimeoutExpired e \<Rightarrow> Raised e
         | OtherError e \<Rightarrow> Raised e,
         replicate (Suc n) [?p, ''1+1''])"
      using latency_loop_first_failure [of n 100 sp 0 ?p] n before at
      by (simp split: outcome.splits)
    from test_latency_ping_loop [OF assms loop, of started ended res]
    show "snd (test_latency_ping sp started ended axiom_path res) = replicate (Suc n) [?p, ''1+1'']
       \<and> performance_tests (fst (test_latency_ping sp started ended axiom_path res)) ''latency''
           = Some (case sp n [?p, ''1+1''] 1 of
                     Completed r \<Rightarrow> ''FAIL - Calc '' @ str_nat n
                   | TimeoutExpired e \<Rightarrow> ''FAIL - '' @ e
                   | OtherError e \<Rightarrow> ''FAIL - '' @ e)"
      by (cases "sp n [?p, ''1+1''] 1") simp_all
  qed
  have b: "(\<forall>j<100. ?ok j) \<longrightarrow>
       snd (test_latency_ping sp started ended axiom_path res) = replicate 100 [?p, ''1+1'']"
  proof
    assume "\<forall>j<100. ?ok j"
    then have "latency_loop sp ?p 0 100 = (AllDone, replicate 100 [?p, ''1+1''])"
      using latency_loop_all_pass [of 100 sp 0 ?p] by simp
    from test_latency_ping_loop [OF assms this, of started ended res]
    show "snd (test_latency_ping sp started ended axiom_path res) = replicate 100 [?p, ''1+1'']"
      by simp
  qed
  have c: "k < 10 \<longrightarrow> (\<forall>j<k. ?done j) \<longrightarrow>
       sp k [?p, ''linear''] 5 = TimeoutExpired e \<or> sp k [?p, ''linear''] 5 = OtherError e \<longrightarrow>
       snd (test_throughput_flood sp before after axiom_path res) = replicate (Suc k) [?p, ''linear'']
       \<and> performance_tests (fst (test_throughput_flood sp before after axiom_path res)) ''throughput''
           = Some (''FAIL - '' @ e)"
  proof (intro impI)
    assume k: "k < 10" and before: "\<forall>j<k. ?done j"
      and at: "sp k [?p, ''linear''] 5 = TimeoutExpired e \<or> sp k [?p, ''linear''] 5 = OtherError e"
    have "flood_loop sp ?p 0 10 = (Some e, replicate (Suc k) [?p, ''linear''])"
      using flood_loop_first_exception [of k 10 sp 0 ?p e] k before at by simp
    from test_throughput_flood_loop [OF assms this, of before after res]
    show "snd (test_throughput_flood sp before after axiom_path res) = replicate (Suc k) [?p, ''linear'']
       \<and> performance_tests (fst (test_throughput_flood sp before after axiom_path res)) ''throughput''
           = Some (''FAIL - '' @ e)"
      by simp
  qed
  have d: "(\<forall>j<10. ?done j) \<longrightarrow>
       snd (test_throughput_flood sp before after axiom_path res) = replicate 10 [?p, ''linear'']
       \<and> performance_tests (fst (test_throughput_flood sp before after axiom_path res)) ''throughput''
           = Some (if after - before < 100 * 1024 * 1024 then ''PASS'' else ''WARN - Memory growth'')"
  proof
    assume "\<forall>j<10. ?done j"
    then have "flood_loop sp ?p 0 10 = (None, replicate 10 [?p, ''linear''])"
      using flood_loop_all_complete [of 10 sp 0 ?p] by simp
    from test_throughput_flood_loop [OF assms this, of before after res]
    show "snd (test_throughput_flood sp before after axiom_path res) = replicate 10 [?p, ''linear'']
       \<and> performance_tests (fst (test_throughput_flood sp before after axiom_path res)) ''throughput''
           = Some (if after - before < 100 * 1024 * 1024 then ''PASS'' else ''WARN - Memory growth'')"
      by simp
  qed
  have none: "fst (flood_loop sp ?p 0 10) = None \<longleftrightarrow> (\<forall>j<10. ?done j)"
    using flood_loop_no_exception [of sp ?p 0 10] by simp
  obtain ex calls where loop: "flood_loop sp ?p 0 10 = (ex, calls)"
    by (cases "flood_loop sp ?p 0 10")
  have e: "performance_tests (fst (test_throughput_flood sp before after axiom_path res)) ''throughput''
          = Some ''PASS''
        \<longleftrightarrow> (\<forall>j<10. ?done j) \<and> after - before < 100 * 1024 * 1024"
    using test_throughput_flood_loop [OF assms loop, of before after res] none loop
    by (cases ex) auto
  from a b c d e show ?thesis by blast
qed

theorem latency_and_throughput_invocations_witness:
  "\<not> no_path (Some ''axiom'')
   \<and> snd (test_latency_ping thirteenth_fails_engine 0 1 (Some ''axiom'') init_results)
       = replicate 13 [''axiom'', ''1+1'']
   \<and> performance_tests
        (fst (test_latency_ping thirteenth_fails_engine 0 1 (Some ''axiom'') init_results))
        ''latency'' = Some ''FAIL - Calc 12''
   \<and> snd (test_latency_ping two_engine 0 1 (Some ''axiom'') init_results)
       = replicate 100 [''axiom'', ''1+1'']
   \<and> snd (test_throughput_flood hanging_engine 1000 2000 (Some ''axiom'') init_results)
       = [[''axiom'', ''linear'']]
   \<and> performance_tests
        (fst (test_throughput_flood hanging_engine 1000 2000 (Some ''axiom'') init_results))
        ''throughput'' = Some ''FAIL - timed out''
   \<and> snd (test_throughput_flood two_engine 1000 2000 (Some ''axiom'') init_results)
       = replicate 10 [''axiom'', ''linear'']
   \<and> performance_tests
        (fst (test_throughput_flood two_engine 1000 2000 (Some ''axiom'') init_results))
        ''throughput'' = Some ''PASS''"
proof -
  have p: "\<not> no_path (Some ''axiom'')" by simp
  have one: "str_nat (Suc 0) = ''1''"
    by (subst str_nat.simps) (simp add: digit_char_def)
  have twelve: "str_nat 12 = ''12''"
    by (subst str_nat.simps) (simp add: one digit_char_def)
  from latency_and_throughput_invocations [OF p, where sp = thirteenth_fails_engine
      and n = 12 and started = 0 and ended = 1 and res = init_results]
  have a: "snd (test_latency_ping thirteenth_fails_engine 0 1 (Some ''axiom'') init_results)
       = replicate 13 [''axiom'', ''1+1'']
     \<and> performance_tests
        (fst (test_latency_ping thirteenth_fails_engine 0 1 (Some ''axiom'') init_results))
        ''latency'' = Some ''FAIL - Calc 12''"
    by (simp add: thirteenth_fails_engine_def py_in_def twelve)
  from latency_and_throughput_invocations [OF p, where sp = two_engine
      and started = 0 and ended = 1 and before = 1000 and after = 2000 and res = init_results]
  have b: "snd (test_latency_ping two_engine 0 1 (Some ''axiom'') init_results)
       = replicate 100 [''axiom'', ''1+1'']
     \<and> snd (test_throughput_flood two_engine 1000 2000 (Some ''axiom'') init_results)
       = replicate 10 [''axiom'', ''linear'']
     \<and> performance_tests
        (fst (test_throughput_flood two_engine 1000 2000 (Some ''axiom'') init_results))
        ''throughput'' = Some ''PASS''"
    by (simp add: two_engine_def py_in_def)
  from latency_and_throughput_invocations [OF p, where sp = hanging_engine
      and k = 0 and e = "''timed out''" and before = 1000 and after = 2000 and res = init_results]
  have c: "snd (test_throughput_flood hanging_engine 1000 2000 (Some ''axiom'') init_results)
       = [[''axiom'', ''linear'']]
     \<and> performance_tests
        (fst (test_throughput_flood hanging_engine 1000 2000 (Some ''axiom'') init_results))
        ''throughput'' = Some ''FAIL - timed out''"
    by (simp add: hanging_engine_def)
  from p a b c show ?thesis by simp
qed

end
